theory Spec2Isabelle
  imports Complex_Main
begin

section \<open>The conversation service of ms-jarvis-svc\<close>

text \<open>
  A shallow embedding of \<^verbatim>\<open>src/app/services/conversation_service.py\<close>
  (class \<^verbatim>\<open>ConversationService\<close>). The service talks to five collaborators:
  the bot repositories (database), the message store (\<^verbatim>\<open>NexusClient\<close>), the
  usage sink (\<^verbatim>\<open>FrostClient\<close>), the language-model node (\<^verbatim>\<open>LLMNode\<close>) and
  the database session. Every call to one of them is an effect. A function of the
  service takes the effects that happened before it was called (its history) and returns
  its result together with the effects it performed itself, in program order; what a call
  to a collaborator returns or raises is given by an environment whose answers may depend
  on the whole history.
\<close>

subsection \<open>Data\<close>

type_synonym uuid = string

text \<open>Python exceptions as values.\<close>

datatype exn =
    APIError int string        \<comment> \<open>\<^verbatim>\<open>APIError(status_code, message)\<close>\<close>
  | KeyError string            \<comment> \<open>subscript of a dict with a missing key\<close>
  | AttributeError string      \<comment> \<open>attribute access on \<^verbatim>\<open>None\<close>\<close>
  | External string            \<comment> \<open>anything raised inside a collaborator\<close>

record bot_config =
  model_name :: string
  temperature :: real
  max_output_tokens :: int
  custom_instructions :: string

text \<open>\<^verbatim>\<open>CreateMessageRequest\<close>: the fields the service reads.\<close>

record create_message_request =
  req_content :: string
  req_id :: "string option"
  req_parent_id :: "string option"
  req_response_id :: string

text \<open>
  \<^verbatim>\<open>StreamChunk\<close>: a text delta (possibly \<^verbatim>\<open>None\<close> or empty), a metadata
  dictionary and the terminal flag. The only metadata entry the service reads is
  \<^verbatim>\<open>"usage"\<close>, itself a dictionary of counters.
\<close>

record stream_chunk =
  chunk_content :: "string option"
  chunk_metadata :: "string \<rightharpoonup> (string \<rightharpoonup> int)"
  chunk_done :: bool

text \<open>The JSON body posted to \<^verbatim>\<open>api/v1/messages/{thread_id}\<close>.\<close>

record message_payload =
  msg_id :: string
  msg_content :: string
  msg_role :: string
  msg_parent_id :: "string option"
  msg_status :: string

text \<open>The JSON body posted to \<^verbatim>\<open>api/v1/events\<close>.\<close>

record usage_payload =
  account_id :: string
  usage_model_name :: string
  input_tokens :: "int option"
  output_tokens :: "int option"
  request_id :: string
  user_id :: "string option"
  tenant_id :: "string option"
  ip_address :: string
  user_agent :: string

text \<open>The arguments \<^verbatim>\<open>_initialize_llm\<close> gives to \<^verbatim>\<open>LLMNode\<close>.\<close>

record llm_node_args =
  llm_provider :: string
  llm_api_key :: string
  llm_model :: string
  llm_temperature :: real
  llm_max_tokens :: int
  llm_streaming_enabled :: bool
  llm_chunk_size :: nat
  llm_base_system_prompt :: string
  llm_template :: string

record settings =
  OPENAI_API_KEY :: string
  ANTHROPIC_API_KEY :: string

text \<open>
  The calls the service makes, in the order it makes them. A message-store post carries
  whether the call returned (\<open>True\<close>) or raised; so does a usage post and a commit.
\<close>

datatype effect =
    BotGet uuid
  | ConfigGet uuid
  | NexusPost uuid message_payload bool
  | NexusGet uuid "string option" "string option"
  | LlmInit llm_node_args
  | AddMessage string string
  | ProcessStream string
  | Yield stream_chunk
  | FrostPost usage_payload bool
  | DbCommit bool

type_synonym trace = "effect list"

text \<open>How the provider's stream stops after its last chunk.\<close>

datatype stream_end = StreamEnds | StreamRaises exn

text \<open>
  The collaborators. Each answer is a function of the history and of the call's
  arguments. A dictionary of a JSON reply is a map from keys to strings; a reply whose
  body has no \<^verbatim>\<open>"data"\<close> entry is \<open>None\<close>.
\<close>

record env =
  bot_repo_get :: "trace \<Rightarrow> uuid \<Rightarrow> exn + bool"
  bot_config_repo_get :: "trace \<Rightarrow> uuid \<Rightarrow> exn + bot_config option"
  nexus_post :: "trace \<Rightarrow> uuid \<Rightarrow> message_payload \<Rightarrow> exn + (string \<rightharpoonup> string) option"
  nexus_get :: "trace \<Rightarrow> uuid \<Rightarrow> string option \<Rightarrow> string option
                  \<Rightarrow> exn + (string \<rightharpoonup> string) list option"
  frost_post :: "trace \<Rightarrow> usage_payload \<Rightarrow> exn + unit"
  db_commit :: "trace \<Rightarrow> exn + unit"
  llm_process_stream :: "trace \<Rightarrow> string \<Rightarrow> stream_chunk list \<times> stream_end"
  uuid7 :: "trace \<Rightarrow> string"
  current_user_id :: "string option"
  current_tenant_id :: "string option"
  app_settings :: settings

text \<open>
  Modelled from the spec: the HTTP clients \<^verbatim>\<open>NexusClient\<close> and \<^verbatim>\<open>FrostClient\<close>
  (\<^verbatim>\<open>app.utils.http_client\<close>) are not part of the sources at hand. Following the
  interface the specification gives for the message store (a post returns the persisted
  message), a post that returns has appended its message to the thread and a post that
  raises has appended nothing. The messages the store holds after a run are therefore the
  posts of the trace that returned.
\<close>

fun persisted :: "trace \<Rightarrow> (uuid \<times> message_payload) list" where
  "persisted [] = []"
| "persisted (NexusPost t p ok # tr) = (if ok then (t, p) # persisted tr else persisted tr)"
| "persisted (_ # tr) = persisted tr"

text \<open>The write requests sent to the message store, returned or not.\<close>

fun message_writes :: "trace \<Rightarrow> (uuid \<times> message_payload) list" where
  "message_writes [] = []"
| "message_writes (NexusPost t p ok # tr) = (t, p) # message_writes tr"
| "message_writes (_ # tr) = message_writes tr"

fun usage_events :: "trace \<Rightarrow> usage_payload list" where
  "usage_events [] = []"
| "usage_events (FrostPost u ok # tr) = u # usage_events tr"
| "usage_events (_ # tr) = usage_events tr"

fun commits :: "trace \<Rightarrow> nat" where
  "commits [] = 0"
| "commits (DbCommit ok # tr) = Suc (commits tr)"
| "commits (_ # tr) = commits tr"

fun yielded :: "trace \<Rightarrow> stream_chunk list" where
  "yielded [] = []"
| "yielded (Yield c # tr) = c # yielded tr"
| "yielded (_ # tr) = yielded tr"

fun is_ok :: "'a + 'b \<Rightarrow> bool" where
  "is_ok (Inl _) = False"
| "is_ok (Inr _) = True"

subsection \<open>Provider resolution\<close>

definition openai_models :: "string list" where
  "openai_models =
     [''gpt-4o'', ''gpt-4o-mini'', ''gpt-4'', ''gpt-4-turbo'', ''gpt-3.5-turbo'']"

definition anthropic_models :: "string list" where
  "anthropic_models =
     [''claude-3-5-sonnet-20241022'', ''claude-3-5-sonnet-20240620'',
      ''claude-3-haiku-20240307'', ''claude-3-opus-20240229'',
      ''claude-3-sonnet-20240229'']"

definition get_api_key_and_provider :: "settings \<Rightarrow> string \<Rightarrow> exn + (string \<times> string)" where
  "get_api_key_and_provider st name =
     (if name \<in> set openai_models then Inr (OPENAI_API_KEY st, ''openai'')
      else if name \<in> set anthropic_models then Inr (ANTHROPIC_API_KEY st, ''anthropic'')
      else Inl (APIError 400 ''Invalid model name''))"

subsection \<open>Helpers of the service\<close>

text \<open>Python truthiness of an optional string: \<^verbatim>\<open>None\<close> and \<^verbatim>\<open>""\<close> are false.\<close>

fun truthy :: "string option \<Rightarrow> bool" where
  "truthy None = False"
| "truthy (Some s) = (s \<noteq> [])"

definition get_bot_config :: "env \<Rightarrow> uuid \<Rightarrow> trace \<Rightarrow> (exn + bot_config) \<times> trace" where
  "get_bot_config E bot_id hist =
     (case bot_repo_get E hist bot_id of
        Inl e \<Rightarrow> (Inl e, [BotGet bot_id])
      | Inr False \<Rightarrow> (Inl (APIError 404 ''Bot not found''), [BotGet bot_id])
      | Inr True \<Rightarrow>
          (case bot_config_repo_get E (hist @ [BotGet bot_id]) bot_id of
             Inl e \<Rightarrow> (Inl e, [BotGet bot_id, ConfigGet bot_id])
           | Inr None \<Rightarrow>
               (Inl (APIError 404 ''Bot config not found''), [BotGet bot_id, ConfigGet bot_id])
           | Inr (Some config) \<Rightarrow> (Inr config, [BotGet bot_id, ConfigGet bot_id])))"

definition create_payload :: "env \<Rightarrow> trace \<Rightarrow> create_message_request \<Rightarrow> message_payload" where
  "create_payload E hist schema =
     \<lparr> msg_id = (if truthy (req_id schema) then the (req_id schema) else uuid7 E hist),
       msg_content = req_content schema,
       msg_role = ''user'',
       msg_parent_id = (if truthy (req_parent_id schema) then req_parent_id schema else None),
       msg_status = ''completed'' \<rparr>"

definition post_user_message ::
  "env \<Rightarrow> uuid \<Rightarrow> message_payload \<Rightarrow> trace \<Rightarrow> (exn + (string \<rightharpoonup> string)) \<times> trace" where
  "post_user_message E thread_id payload hist =
     (case nexus_post E hist thread_id payload of
        Inl e \<Rightarrow> (Inl e, [NexusPost thread_id payload False])
      | Inr None \<Rightarrow> (Inl (KeyError ''data''), [NexusPost thread_id payload True])
      | Inr (Some d) \<Rightarrow> (Inr d, [NexusPost thread_id payload True]))"

definition post_assistant_message ::
  "env \<Rightarrow> uuid \<Rightarrow> string \<Rightarrow> string \<Rightarrow> string \<Rightarrow> trace \<Rightarrow> (exn + unit) \<times> trace" where
  "post_assistant_message E thread_id assistant_msg_id content user_msg_id hist =
     (let payload = \<lparr> msg_id = assistant_msg_id, msg_content = content,
                       msg_role = ''assistant'', msg_parent_id = Some user_msg_id,
                       msg_status = ''completed'' \<rparr> in
      case nexus_post E hist thread_id payload of
        Inl e \<Rightarrow> (Inl e, [NexusPost thread_id payload False])
      | Inr _ \<Rightarrow> (Inr (), [NexusPost thread_id payload True]))"

text \<open>
  \<^verbatim>\<open>_get_formatted_history\<close>: each message of the reply is projected to its role and
  content; a message lacking one of the two raises \<^verbatim>\<open>KeyError\<close>.
\<close>

fun format_messages :: "(string \<rightharpoonup> string) list \<Rightarrow> exn + (string \<times> string) list" where
  "format_messages [] = Inr []"
| "format_messages (m # ms) =
     (case m ''role'' of
        None \<Rightarrow> Inl (KeyError ''role'')
      | Some r \<Rightarrow>
          (case m ''content'' of
             None \<Rightarrow> Inl (KeyError ''content'')
           | Some c \<Rightarrow>
               (case format_messages ms of
                  Inl e \<Rightarrow> Inl e
                | Inr rest \<Rightarrow> Inr ((r, c) # rest))))"

definition get_formatted_history ::
  "env \<Rightarrow> uuid \<Rightarrow> string option \<Rightarrow> string option \<Rightarrow> trace
     \<Rightarrow> (exn + (string \<times> string) list) \<times> trace" where
  "get_formatted_history E thread_id branch_id last_message_id hist =
     (case nexus_get E hist thread_id last_message_id branch_id of
        Inl e \<Rightarrow> (Inl e, [NexusGet thread_id last_message_id branch_id])
      | Inr None \<Rightarrow> (Inl (KeyError ''data''), [NexusGet thread_id last_message_id branch_id])
      | Inr (Some messages) \<Rightarrow>
          (format_messages messages, [NexusGet thread_id last_message_id branch_id]))"

definition initialize_llm :: "string \<Rightarrow> string \<Rightarrow> bot_config \<Rightarrow> string \<Rightarrow> llm_node_args" where
  "initialize_llm api_key provider config system_message =
     \<lparr> llm_provider = provider, llm_api_key = api_key, llm_model = model_name config,
       llm_temperature = temperature config, llm_max_tokens = max_output_tokens config,
       llm_streaming_enabled = True, llm_chunk_size = 10,
       llm_base_system_prompt = system_message, llm_template = ''{input}'' \<rparr>"

subsection \<open>The streaming generator\<close>

text \<open>
  \<^verbatim>\<open>_handle_streaming_response\<close> is an asynchronous generator: its body runs only
  while the caller asks for the next chunk, and is suspended at each \<^verbatim>\<open>yield\<close>.
  The caller is modelled by how many chunks it takes before closing the generator:
  \<open>None\<close> iterates until the generator stops by itself, \<open>Some n\<close> takes \<open>n\<close>
  chunks and then closes it (a disconnect), so that the code after the \<open>n\<close>-th
  \<^verbatim>\<open>yield\<close> never runs.
\<close>

datatype gen_result =
    Exhausted      \<comment> \<open>the generator returned: the provider's stream ended\<close>
  | Closed         \<comment> \<open>the caller closed the generator at a \<^verbatim>\<open>yield\<close>\<close>
  | Raised exn     \<comment> \<open>an exception left the generator\<close>

text \<open>The body of \<^verbatim>\<open>if chunk.done:\<close> (lines 103 to 125).\<close>

definition on_done ::
  "env \<Rightarrow> bot_config \<Rightarrow> uuid \<Rightarrow> string \<Rightarrow> string \<Rightarrow> string list \<Rightarrow> stream_chunk \<Rightarrow> trace
     \<Rightarrow> (exn + unit) \<times> trace" where
  "on_done E config thread_id user_msg_id assistant_msg_id accumulated_content chunk hist =
     (let full_content = concat accumulated_content in
      case post_assistant_message E thread_id assistant_msg_id full_content user_msg_id hist of
        (Inl e, es1) \<Rightarrow> (Inl e, es1)
      | (Inr _, es1) \<Rightarrow>
          (case chunk_metadata chunk ''usage'' of
             None \<Rightarrow> (Inl (AttributeError ''get''), es1)
           | Some usage \<Rightarrow>
               (let payload_usage =
                      \<lparr> account_id = ''067423b0-81fa-702b-8000-b03b6db1eb93'',
                        usage_model_name = model_name config,
                        input_tokens = usage ''prompt_tokens'',
                        output_tokens = usage ''completion_tokens'',
                        request_id = uuid7 E (hist @ es1),
                        user_id = current_user_id E,
                        tenant_id = current_tenant_id E,
                        ip_address = ''127.0.0.1'',
                        user_agent = [] \<rparr> in
                case frost_post E (hist @ es1) payload_usage of
                  Inl e \<Rightarrow> (Inl e, es1 @ [FrostPost payload_usage False])
                | Inr _ \<Rightarrow>
                    (let es2 = es1 @ [FrostPost payload_usage True] in
                     case db_commit E (hist @ es2) of
                       Inl e \<Rightarrow> (Inl e, es2 @ [DbCommit False])
                     | Inr _ \<Rightarrow> (Inr (), es2 @ [DbCommit True])))))"

text \<open>Whether the caller closes the generator at the \<^verbatim>\<open>yield\<close> it has just reached.\<close>

fun closes_now :: "nat option \<Rightarrow> bool" where
  "closes_now None = False"
| "closes_now (Some n) = (n \<le> 1)"

fun after_take :: "nat option \<Rightarrow> nat option" where
  "after_take None = None"
| "after_take (Some n) = Some (n - 1)"

text \<open>
  The \<^verbatim>\<open>async for\<close> loop (lines 98 to 125) over the chunks the provider has still to
  produce. The accumulator grows before the \<^verbatim>\<open>yield\<close>; the completion block runs
  after it, when the caller asks for the next chunk.
\<close>

fun stream_loop ::
  "env \<Rightarrow> bot_config \<Rightarrow> uuid \<Rightarrow> string \<Rightarrow> string \<Rightarrow> nat option \<Rightarrow> string list
     \<Rightarrow> stream_chunk list \<Rightarrow> stream_end \<Rightarrow> trace \<Rightarrow> gen_result \<times> trace" where
  "stream_loop E config thread_id user_msg_id assistant_msg_id caller acc [] fin hist =
     (case fin of StreamEnds \<Rightarrow> (Exhausted, []) | StreamRaises e \<Rightarrow> (Raised e, []))"
| "stream_loop E config thread_id user_msg_id assistant_msg_id caller acc (chunk # rest) fin hist =
     (let acc1 = (if truthy (chunk_content chunk) then acc @ [the (chunk_content chunk)]
                  else acc) in
      if closes_now caller then (Closed, [Yield chunk])
      else if chunk_done chunk then
        (case on_done E config thread_id user_msg_id assistant_msg_id acc1 chunk
                (hist @ [Yield chunk]) of
           (Inl e, es) \<Rightarrow> (Raised e, Yield chunk # es)
         | (Inr _, es) \<Rightarrow>
             apsnd (\<lambda>later. Yield chunk # es @ later)
               (stream_loop E config thread_id user_msg_id assistant_msg_id
                  (after_take caller) acc1 rest fin (hist @ Yield chunk # es)))
      else
        apsnd (\<lambda>later. Yield chunk # later)
          (stream_loop E config thread_id user_msg_id assistant_msg_id
             (after_take caller) acc1 rest fin (hist @ [Yield chunk])))"

text \<open>The session the generator opens before the loop (lines 88 to 98).\<close>

definition open_session ::
  "create_message_request \<Rightarrow> string \<Rightarrow> string \<Rightarrow> bot_config \<Rightarrow> (string \<times> string) list
     \<Rightarrow> trace" where
  "open_session schema api_key provider config formatted_history =
     [LlmInit (initialize_llm api_key provider config (custom_instructions config))]
     @ map (\<lambda>message. AddMessage (fst message) (snd message)) (butlast formatted_history)
     @ [ProcessStream (req_content schema)]"

text \<open>
  What \<^verbatim>\<open>llm.process_stream(schema.content)\<close> will produce for the session just
  opened: the provider's chunks and how its stream stops.
\<close>

definition provider_stream ::
  "env \<Rightarrow> create_message_request \<Rightarrow> string \<Rightarrow> string \<Rightarrow> bot_config \<Rightarrow> (string \<times> string) list
     \<Rightarrow> trace \<Rightarrow> stream_chunk list \<times> stream_end" where
  "provider_stream E schema api_key provider config formatted_history hist =
     llm_process_stream E
       (hist @ open_session schema api_key provider config formatted_history)
       (req_content schema)"

definition handle_streaming_response ::
  "env \<Rightarrow> create_message_request \<Rightarrow> string \<Rightarrow> string \<Rightarrow> bot_config \<Rightarrow> uuid \<Rightarrow> string
     \<Rightarrow> string \<Rightarrow> (string \<times> string) list \<Rightarrow> nat option \<Rightarrow> trace \<Rightarrow> gen_result \<times> trace" where
  "handle_streaming_response E schema api_key provider config thread_id user_msg_id
       assistant_msg_id formatted_history caller hist =
     (if caller = Some 0 then (Closed, [])
      else
        (let es = open_session schema api_key provider config formatted_history;
             stream = provider_stream E schema api_key provider config formatted_history hist
         in
         apsnd (\<lambda>later. es @ later)
           (stream_loop E config thread_id user_msg_id assistant_msg_id caller []
              (fst stream) (snd stream) (hist @ es))))"

subsection \<open>Processing a user message\<close>

text \<open>What \<^verbatim>\<open>process_user_message\<close> hands to the generator it returns.\<close>

record generator_args =
  gen_schema :: create_message_request
  gen_api_key :: string
  gen_provider :: string
  gen_config :: bot_config
  gen_thread_id :: uuid
  gen_user_msg_id :: string
  gen_assistant_msg_id :: string
  gen_formatted_history :: "(string \<times> string) list"

definition process_user_message ::
  "env \<Rightarrow> uuid \<Rightarrow> uuid \<Rightarrow> create_message_request \<Rightarrow> bool \<Rightarrow> (exn + generator_args) \<times> trace"
  where
  "process_user_message E bot_id thread_id schema stream =
     (if \<not> stream then
        (Inl (APIError 405 ''Non-streaming responses are not implemented yet''), [])
      else
        case get_bot_config E bot_id [] of
          (Inl e, es1) \<Rightarrow> (Inl e, es1)
        | (Inr config, es1) \<Rightarrow>
            (case get_api_key_and_provider (app_settings E) (model_name config) of
               Inl e \<Rightarrow> (Inl e, es1)
             | Inr (api_key, provider) \<Rightarrow>
                 (let payload = create_payload E es1 schema in
                  case post_user_message E thread_id payload es1 of
                    (Inl e, es2) \<Rightarrow> (Inl e, es1 @ es2)
                  | (Inr user_message, es2) \<Rightarrow>
                      (case user_message ''branch_id'' of
                         None \<Rightarrow> (Inl (KeyError ''branch_id''), es1 @ es2)
                       | Some branch_id \<Rightarrow>
                           (case user_message ''id'' of
                              None \<Rightarrow> (Inl (KeyError ''id''), es1 @ es2)
                            | Some uid \<Rightarrow>
                                (case get_formatted_history E thread_id (Some branch_id)
                                        (Some uid) (es1 @ es2) of
                                   (Inl e, es3) \<Rightarrow> (Inl e, es1 @ es2 @ es3)
                                 | (Inr formatted_history, es3) \<Rightarrow>
                                     (Inr \<lparr> gen_schema = schema, gen_api_key = api_key,
                                            gen_provider = provider, gen_config = config,
                                            gen_thread_id = thread_id, gen_user_msg_id = uid,
                                            gen_assistant_msg_id = req_response_id schema,
                                            gen_formatted_history = formatted_history \<rparr>,
                                      es1 @ es2 @ es3)))))))"

text \<open>
  A request served to the end: the endpoint awaits \<^verbatim>\<open>process_user_message\<close> and
  then iterates the generator it got.
\<close>

definition serve ::
  "env \<Rightarrow> uuid \<Rightarrow> uuid \<Rightarrow> create_message_request \<Rightarrow> bool \<Rightarrow> nat option
     \<Rightarrow> (exn + gen_result) \<times> trace" where
  "serve E bot_id thread_id schema stream caller =
     (case process_user_message E bot_id thread_id schema stream of
        (Inl e, es) \<Rightarrow> (Inl e, es)
      | (Inr g, es) \<Rightarrow>
          (case handle_streaming_response E (gen_schema g) (gen_api_key g) (gen_provider g)
                  (gen_config g) (gen_thread_id g) (gen_user_msg_id g)
                  (gen_assistant_msg_id g) (gen_formatted_history g) caller es of
             (r, later) \<Rightarrow> (Inr r, es @ later)))"

subsection \<open>Reading a trace\<close>

text \<open>What the language-model session was given: system prompts, replayed turns, inputs.\<close>

fun system_prompts :: "trace \<Rightarrow> string list" where
  "system_prompts [] = []"
| "system_prompts (LlmInit a # tr) = llm_base_system_prompt a # system_prompts tr"
| "system_prompts (_ # tr) = system_prompts tr"

fun replayed_turns :: "trace \<Rightarrow> (string \<times> string) list" where
  "replayed_turns [] = []"
| "replayed_turns (AddMessage r c # tr) = (r, c) # replayed_turns tr"
| "replayed_turns (_ # tr) = replayed_turns tr"

fun new_inputs :: "trace \<Rightarrow> string list" where
  "new_inputs [] = []"
| "new_inputs (ProcessStream i # tr) = i # new_inputs tr"
| "new_inputs (_ # tr) = new_inputs tr"

text \<open>The usage events the sink took: the usage posts that returned.\<close>

fun usage_delivered :: "trace \<Rightarrow> usage_payload list" where
  "usage_delivered [] = []"
| "usage_delivered (FrostPost u ok # tr) =
     (if ok then u # usage_delivered tr else usage_delivered tr)"
| "usage_delivered (_ # tr) = usage_delivered tr"

text \<open>The commits that went through.\<close>

fun committed :: "trace \<Rightarrow> nat" where
  "committed [] = 0"
| "committed (DbCommit ok # tr) = (if ok then Suc (committed tr) else committed tr)"
| "committed (_ # tr) = committed tr"

text \<open>The text deltas the accumulator keeps: the contents that are neither absent nor empty.\<close>

fun deltas :: "stream_chunk list \<Rightarrow> string list" where
  "deltas [] = []"
| "deltas (c # cs) =
     (if truthy (chunk_content c) then the (chunk_content c) # deltas cs else deltas cs)"

text \<open>
  The chunks the provider gets to deliver before the caller closes the generator: all of
  them for a caller that never closes, the first \<open>n\<close> for one that takes \<open>n\<close>.
\<close>

fun reached :: "nat option \<Rightarrow> stream_chunk list \<Rightarrow> stream_chunk list" where
  "reached None cs = cs"
| "reached (Some n) cs = take n cs"


text \<open>An environment whose message store, usage sink and database never raise.\<close>

definition collaborators_succeed :: "env \<Rightarrow> bool" where
  "collaborators_succeed E \<longleftrightarrow>
     (\<forall>h t p. is_ok (nexus_post E h t p)) \<and> (\<forall>h u. is_ok (frost_post E h u)) \<and>
     (\<forall>h. is_ok (db_commit E h))"

text \<open>
  Whether \<^verbatim>\<open>process_user_message\<close> fails no later than in the call that writes the
  user message: the mode check, the configuration lookup, the provider resolution or the
  post itself raises.
\<close>

definition fails_by_user_write :: "env \<Rightarrow> uuid \<Rightarrow> uuid \<Rightarrow> create_message_request \<Rightarrow> bool \<Rightarrow> bool"
  where
  "fails_by_user_write E bot_id thread_id schema stream =
     (if \<not> stream then True
      else
        case get_bot_config E bot_id [] of
          (Inl e, es1) \<Rightarrow> True
        | (Inr config, es1) \<Rightarrow>
            (case get_api_key_and_provider (app_settings E) (model_name config) of
               Inl e \<Rightarrow> True
             | Inr _ \<Rightarrow> \<not> is_ok (nexus_post E es1 thread_id (create_payload E es1 schema))))"

subsection \<open>A concrete exchange\<close>

text \<open>
  The end-to-end scenario of the specification: content \<^verbatim>\<open>"hello"\<close> on thread
  \<^verbatim>\<open>T1\<close>, and a provider that streams \<^verbatim>\<open>"Hi"\<close>, \<^verbatim>\<open>" there"\<close> and an empty
  terminal chunk with usage 5 and 2.
\<close>

definition demo_config :: bot_config where
  "demo_config = \<lparr> model_name = ''gpt-4o'', temperature = 0, max_output_tokens = 100,
                    custom_instructions = ''be kind'' \<rparr>"

definition demo_terminal :: stream_chunk where
  "demo_terminal =
     \<lparr> chunk_content = Some [],
       chunk_metadata = [''usage'' \<mapsto> [''prompt_tokens'' \<mapsto> 5, ''completion_tokens'' \<mapsto> 2]],
       chunk_done = True \<rparr>"

definition demo_body :: "stream_chunk list" where
  "demo_body =
     [\<lparr> chunk_content = Some ''Hi'', chunk_metadata = Map.empty, chunk_done = False \<rparr>,
      \<lparr> chunk_content = Some '' there'', chunk_metadata = Map.empty, chunk_done = False \<rparr>]"

definition demo_env :: env where
  "demo_env =
     \<lparr> bot_repo_get = (\<lambda>_ _. Inr True),
       bot_config_repo_get = (\<lambda>_ _. Inr (Some demo_config)),
       nexus_post = (\<lambda>_ _ p. Inr (Some [''id'' \<mapsto> msg_id p, ''branch_id'' \<mapsto> ''b1''])),
       nexus_get = (\<lambda>_ _ _ _. Inr (Some [[''role'' \<mapsto> ''user'', ''content'' \<mapsto> ''hello'']])),
       frost_post = (\<lambda>_ _. Inr ()),
       db_commit = (\<lambda>_. Inr ()),
       llm_process_stream = (\<lambda>_ _. (demo_body @ [demo_terminal], StreamEnds)),
       uuid7 = (\<lambda>_. ''u7''),
       current_user_id = Some ''alice'',
       current_tenant_id = Some ''acme'',
       app_settings = \<lparr> OPENAI_API_KEY = ''sk-o'', ANTHROPIC_API_KEY = ''sk-a'' \<rparr> \<rparr>"

text \<open>The same exchange with a terminal chunk that carries no usage counters.\<close>

definition bare_terminal :: stream_chunk where
  "bare_terminal = \<lparr> chunk_content = Some [], chunk_metadata = Map.empty, chunk_done = True \<rparr>"

definition env_without_usage :: env where
  "env_without_usage =
     demo_env \<lparr> llm_process_stream := (\<lambda>_ _. (demo_body @ [bare_terminal], StreamEnds)) \<rparr>"


text \<open>The same exchange with a message store that accepts posts but fails every read.\<close>

definition env_history_down :: env where
  "env_history_down = demo_env \<lparr> nexus_get := (\<lambda>_ _ _ _. Inl (External ''store down'')) \<rparr>"

text \<open>The same exchange with a provider that fails after two chunks.\<close>

definition env_provider_fails :: env where
  "env_provider_fails =
     demo_env \<lparr> llm_process_stream :=
                  (\<lambda>_ _. (demo_body, StreamRaises (External ''provider down''))) \<rparr>"

text \<open>A configuration whose model belongs to neither family.\<close>

definition env_unknown_model :: env where
  "env_unknown_model =
     demo_env \<lparr> bot_config_repo_get :=
                  (\<lambda>_ _. Inr (Some (demo_config \<lparr> model_name := ''llama-3'' \<rparr>))) \<rparr>"

text \<open>A thread with two earlier messages, the newest of them an assistant's.\<close>

definition two_turns :: "(string \<times> string) list" where
  "two_turns = [(''user'', ''hi''), (''assistant'', ''welcome'')]"

definition demo_request :: create_message_request where
  "demo_request = \<lparr> req_content = ''hello'', req_id = Some ''m1'', req_parent_id = None,
                     req_response_id = ''r1'' \<rparr>"

section \<open>Properties\<close>

subsection \<open>Traces and the completion block\<close>

lemma message_writes_append: "message_writes (xs @ ys) = message_writes xs @ message_writes ys"
  by (induction xs rule: message_writes.induct) simp_all
lemma persisted_append: "persisted (xs @ ys) = persisted xs @ persisted ys"
  by (induction xs rule: persisted.induct) simp_all
lemma usage_events_append: "usage_events (xs @ ys) = usage_events xs @ usage_events ys"
  by (induction xs rule: usage_events.induct) simp_all
lemma commits_append: "commits (xs @ ys) = commits xs + commits ys"
  by (induction xs rule: commits.induct) simp_all
lemma committed_append: "committed (xs @ ys) = committed xs + committed ys"
  by (induction xs rule: committed.induct) simp_all
lemma yielded_append: "yielded (xs @ ys) = yielded xs @ yielded ys"
  by (induction xs rule: yielded.induct) simp_all
lemma system_prompts_append: "system_prompts (xs @ ys) = system_prompts xs @ system_prompts ys"
  by (induction xs rule: system_prompts.induct) simp_all
lemma replayed_turns_append: "replayed_turns (xs @ ys) = replayed_turns xs @ replayed_turns ys"
  by (induction xs rule: replayed_turns.induct) simp_all
lemma new_inputs_append: "new_inputs (xs @ ys) = new_inputs xs @ new_inputs ys"
  by (induction xs rule: new_inputs.induct) simp_all
lemma usage_delivered_append: "usage_delivered (xs @ ys) = usage_delivered xs @ usage_delivered ys"
  by (induction xs rule: usage_delivered.induct) simp_all
lemma deltas_append: "deltas (xs @ ys) = deltas xs @ deltas ys"
  by (induction xs) simp_all

lemmas proj_append = message_writes_append persisted_append usage_events_append commits_append
  committed_append yielded_append usage_delivered_append system_prompts_append replayed_turns_append new_inputs_append

lemma on_done_writes:
  "message_writes (snd (on_done E cfg th u a acc c h)) =
     [(th, \<lparr> msg_id = a, msg_content = concat acc, msg_role = ''assistant'',
            msg_parent_id = Some u, msg_status = ''completed'' \<rparr>)]"
  by (simp add: on_done_def post_assistant_message_def Let_def proj_append
      split: sum.splits option.splits)

lemma on_done_yielded: "yielded (snd (on_done E cfg th u a acc c h)) = []"
  by (simp add: on_done_def post_assistant_message_def Let_def proj_append
      split: sum.splits option.splits)

lemma on_done_session:
  "system_prompts (snd (on_done E cfg th u a acc c h)) = []"
  "replayed_turns (snd (on_done E cfg th u a acc c h)) = []"
  "new_inputs (snd (on_done E cfg th u a acc c h)) = []"
  by (simp_all add: on_done_def post_assistant_message_def Let_def proj_append
      split: sum.splits option.splits)

lemma on_done_usage_le: "length (usage_events (snd (on_done E cfg th u a acc c h))) \<le> 1"
  by (simp add: on_done_def post_assistant_message_def Let_def proj_append
      split: sum.splits option.splits)

lemma on_done_commits_le: "commits (snd (on_done E cfg th u a acc c h)) \<le> 1"
  by (simp add: on_done_def post_assistant_message_def Let_def proj_append
      split: sum.splits option.splits)

lemma on_done_usage_fields:
  "x \<in> set (usage_events (snd (on_done E cfg th u a acc c h))) \<Longrightarrow>
     account_id x = ''067423b0-81fa-702b-8000-b03b6db1eb93'' \<and> ip_address x = ''127.0.0.1'' \<and>
     user_agent x = [] \<and> user_id x = current_user_id E \<and> tenant_id x = current_tenant_id E \<and>
     usage_model_name x = model_name cfg \<and>
     (\<exists>usage. chunk_metadata c ''usage'' = Some usage \<and>
        input_tokens x = usage ''prompt_tokens'' \<and> output_tokens x = usage ''completion_tokens'')"
  by (auto simp add: on_done_def post_assistant_message_def Let_def proj_append
      split: sum.splits option.splits)

lemma on_done_ok:
  assumes "collaborators_succeed E" and "chunk_metadata c ''usage'' = Some usage"
  shows "fst (on_done E cfg th u a acc c h) = Inr ()"
    and "length (usage_events (snd (on_done E cfg th u a acc c h))) = 1"
    and "commits (snd (on_done E cfg th u a acc c h)) = 1"
    and "committed (snd (on_done E cfg th u a acc c h)) = 1"
proof -
  obtain d where d: "nexus_post E h th \<lparr> msg_id = a, msg_content = concat acc, msg_role = ''assistant'',
            msg_parent_id = Some u, msg_status = ''completed'' \<rparr> = Inr d"
    using assms(1) unfolding collaborators_succeed_def by (metis is_ok.elims(2))
  have f: "\<And>h x. frost_post E h x = Inr ()"
    using assms(1) unfolding collaborators_succeed_def by (metis is_ok.elims(2) old.unit.exhaust)
  have g: "\<And>h. db_commit E h = Inr ()"
    using assms(1) unfolding collaborators_succeed_def by (metis is_ok.elims(2) old.unit.exhaust)
  show "fst (on_done E cfg th u a acc c h) = Inr ()"
    and "length (usage_events (snd (on_done E cfg th u a acc c h))) = 1"
    and "commits (snd (on_done E cfg th u a acc c h)) = 1"
    and "committed (snd (on_done E cfg th u a acc c h)) = 1"
    by (simp_all add: on_done_def post_assistant_message_def Let_def proj_append d f g assms(2))
qed


lemma on_done_result:
  assumes "on_done E cfg th u a acc c h = (r, es)"
  shows "yielded es = []"
    and "message_writes es = [(th, \<lparr> msg_id = a, msg_content = concat acc, msg_role = ''assistant'',
            msg_parent_id = Some u, msg_status = ''completed'' \<rparr>)]"
    and "length (usage_events es) \<le> 1" and "commits es \<le> 1"
    and "system_prompts es = []" and "replayed_turns es = []" and "new_inputs es = []"
  using on_done_yielded [of E cfg th u a acc c h] on_done_writes [of E cfg th u a acc c h]
    on_done_usage_le [of E cfg th u a acc c h] on_done_commits_le [of E cfg th u a acc c h]
    on_done_session [of E cfg th u a acc c h] assms
  by simp_all

lemma stream_loop_yield_prefix:
  "\<exists>n. yielded (snd (stream_loop E cfg th u a k acc cs fin h)) = take n cs"
proof (induction cs arbitrary: k acc h)
  case Nil
  show ?case by (simp split: stream_end.splits)
next
  case (Cons c cs)
  let ?acc1 = "if truthy (chunk_content c) then acc @ [the (chunk_content c)] else acc"
  show ?case
  proof (cases "closes_now k")
    case True
    then have "yielded (snd (stream_loop E cfg th u a k acc (c # cs) fin h)) = take 1 (c # cs)"
      by simp
    then show ?thesis by blast
  next
    case going: False
    show ?thesis
    proof (cases "chunk_done c")
      case False
      obtain n where n: "yielded (snd (stream_loop E cfg th u a (after_take k) ?acc1 cs fin
          (h @ [Yield c]))) = take n cs"
        using Cons.IH by blast
      have "yielded (snd (stream_loop E cfg th u a k acc (c # cs) fin h)) = take (Suc n) (c # cs)"
        using going False n by (simp add: Let_def)
      then show ?thesis by blast
    next
      case True
      obtain r es where od: "on_done E cfg th u a ?acc1 c (h @ [Yield c]) = (r, es)"
        by (cases "on_done E cfg th u a ?acc1 c (h @ [Yield c])")
      note y = on_done_result(1) [OF od]
      show ?thesis
      proof (cases r)
        case (Inl e)
        have "yielded (snd (stream_loop E cfg th u a k acc (c # cs) fin h)) = take 1 (c # cs)"
          using going True od Inl y by (simp add: Let_def)
        then show ?thesis by blast
      next
        case (Inr v)
        obtain n where n: "yielded (snd (stream_loop E cfg th u a (after_take k) ?acc1 cs fin
            (h @ Yield c # es))) = take n cs"
          using Cons.IH by blast
        have "yielded (snd (stream_loop E cfg th u a k acc (c # cs) fin h)) = take (Suc n) (c # cs)"
          using going True od Inr y n by (simp add: Let_def yielded_append)
        then show ?thesis by blast
      qed
    qed
  qed
qed

lemma reached_after_take:
  "\<not> closes_now k \<Longrightarrow> set (reached (after_take k) cs) \<subseteq> set (reached k (c # cs))"
  by (cases k) (auto simp: take_Cons' )

lemma reached_head: "\<not> closes_now k \<Longrightarrow> c \<in> set (reached k (c # cs))"
  by (cases k) (auto simp: take_Cons')

lemma stream_loop_no_terminal:
  "\<forall>c\<in>set (reached k cs). \<not> chunk_done c \<Longrightarrow>
     message_writes (snd (stream_loop E cfg th u a k acc cs fin h)) = [] \<and>
     usage_events (snd (stream_loop E cfg th u a k acc cs fin h)) = [] \<and>
     commits (snd (stream_loop E cfg th u a k acc cs fin h)) = 0"
proof (induction cs arbitrary: k acc h)
  case Nil
  show ?case by (simp split: stream_end.splits)
next
  case (Cons c cs)
  show ?case
  proof (cases "closes_now k")
    case True
    then show ?thesis by simp
  next
    case False
    then have nd: "\<not> chunk_done c" using Cons.prems reached_head by blast
    have "\<forall>x\<in>set (reached (after_take k) cs). \<not> chunk_done x"
      using Cons.prems reached_after_take [OF False] by blast
    from Cons.IH [OF this] show ?thesis using False nd by (simp add: Let_def)
  qed
qed

lemma stream_loop_yield_all:
  "\<forall>c\<in>set (butlast cs). \<not> chunk_done c \<Longrightarrow>
     yielded (snd (stream_loop E cfg th u a None acc cs fin h)) = cs"
proof (induction cs arbitrary: acc h)
  case Nil
  show ?case by (simp split: stream_end.splits)
next
  case (Cons c cs)
  let ?acc1 = "if truthy (chunk_content c) then acc @ [the (chunk_content c)] else acc"
  show ?case
  proof (cases "cs = []")
    case True
    obtain r es where od: "on_done E cfg th u a ?acc1 c (h @ [Yield c]) = (r, es)"
      by (cases "on_done E cfg th u a ?acc1 c (h @ [Yield c])")
    note y = on_done_result(1) [OF od]
    show ?thesis using True od y
      by (simp add: Let_def yielded_append split: sum.splits stream_end.splits)
  next
    case False
    then have nd: "\<not> chunk_done c" and rest: "\<forall>x\<in>set (butlast cs). \<not> chunk_done x"
      using Cons.prems by auto
    show ?thesis using nd Cons.IH [OF rest] by (simp add: Let_def)
  qed
qed

lemma stream_loop_exhausted:
  "fst (stream_loop E cfg th u a k acc cs fin h) = Exhausted \<Longrightarrow>
     yielded (snd (stream_loop E cfg th u a k acc cs fin h)) = cs"
proof (induction cs arbitrary: k acc h)
  case Nil
  show ?case by (simp split: stream_end.splits)
next
  case (Cons c cs)
  let ?acc1 = "if truthy (chunk_content c) then acc @ [the (chunk_content c)] else acc"
  have going: "\<not> closes_now k" using Cons.prems by (auto simp: Let_def)
  show ?case
  proof (cases "chunk_done c")
    case False
    then show ?thesis using going Cons.prems Cons.IH by (simp add: Let_def)
  next
    case True
    obtain r es where od: "on_done E cfg th u a ?acc1 c (h @ [Yield c]) = (r, es)"
      by (cases "on_done E cfg th u a ?acc1 c (h @ [Yield c])")
    note y = on_done_result(1) [OF od]
    show ?thesis
    proof (cases r)
      case (Inl e)
      then show ?thesis using going True od Cons.prems by (simp add: Let_def)
    next
      case (Inr v)
      then show ?thesis using going True od y Cons.prems Cons.IH
        by (simp add: Let_def yielded_append)
    qed
  qed
qed



lemma on_done_usage_member:
  assumes "on_done E cfg th u a acc c h = (r, es)" and "x \<in> set (usage_events es)"
  shows "account_id x = ''067423b0-81fa-702b-8000-b03b6db1eb93'' \<and> ip_address x = ''127.0.0.1'' \<and>
     user_agent x = [] \<and> user_id x = current_user_id E \<and> tenant_id x = current_tenant_id E \<and>
     usage_model_name x = model_name cfg \<and>
     (\<exists>usage. chunk_metadata c ''usage'' = Some usage \<and>
        input_tokens x = usage ''prompt_tokens'' \<and> output_tokens x = usage ''completion_tokens'')"
  using on_done_usage_fields [of x E cfg th u a acc c h] assms by simp



lemma proj_open_session:
  "message_writes (open_session s k p cfg hs) = []" "usage_events (open_session s k p cfg hs) = []"
  "commits (open_session s k p cfg hs) = 0" "persisted (open_session s k p cfg hs) = []"
  "usage_delivered (open_session s k p cfg hs) = []" "yielded (open_session s k p cfg hs) = []"
  "system_prompts (open_session s k p cfg hs) = [custom_instructions cfg]"
  "replayed_turns (open_session s k p cfg hs) = butlast hs"
  "new_inputs (open_session s k p cfg hs) = [req_content s]"
proof -
  let ?m = "map (\<lambda>message. AddMessage (fst message) (snd message))"
  have a: "message_writes (?m xs) = []" "usage_events (?m xs) = []" "commits (?m xs) = 0"
    "persisted (?m xs) = []" "usage_delivered (?m xs) = []" "yielded (?m xs) = []"
    "system_prompts (?m xs) = []" "replayed_turns (?m xs) = xs" "new_inputs (?m xs) = []"
    for xs :: "(string \<times> string) list"
    by (induction xs) simp_all
  show "message_writes (open_session s k p cfg hs) = []" "usage_events (open_session s k p cfg hs) = []"
  "commits (open_session s k p cfg hs) = 0" "persisted (open_session s k p cfg hs) = []"
  "usage_delivered (open_session s k p cfg hs) = []" "yielded (open_session s k p cfg hs) = []"
  "system_prompts (open_session s k p cfg hs) = [custom_instructions cfg]"
  "replayed_turns (open_session s k p cfg hs) = butlast hs"
  "new_inputs (open_session s k p cfg hs) = [req_content s]"
    by (simp_all add: open_session_def proj_append a initialize_llm_def)
qed


lemma is_ok_Inr: "is_ok x \<Longrightarrow> \<exists>y. x = Inr y"
  by (cases x) simp_all

lemma stream_loop_usage_member:
  "x \<in> set (usage_events (snd (stream_loop E cfg th u a k acc cs fin h))) \<Longrightarrow>
     account_id x = ''067423b0-81fa-702b-8000-b03b6db1eb93'' \<and> ip_address x = ''127.0.0.1'' \<and>
     user_agent x = [] \<and> user_id x = current_user_id E \<and> tenant_id x = current_tenant_id E \<and>
     usage_model_name x = model_name cfg"
proof (induction cs arbitrary: k acc h)
  case Nil
  then show ?case by (simp split: stream_end.splits)
next
  case (Cons c cs)
  let ?acc1 = "if truthy (chunk_content c) then acc @ [the (chunk_content c)] else acc"
  show ?case
  proof (cases "closes_now k")
    case True
    then show ?thesis using Cons.prems by simp
  next
    case going: False
    show ?thesis
    proof (cases "chunk_done c")
      case False
      then show ?thesis using going Cons.prems Cons.IH by (simp add: Let_def)
    next
      case True
      obtain r es where od: "on_done E cfg th u a ?acc1 c (h @ [Yield c]) = (r, es)"
        by (cases "on_done E cfg th u a ?acc1 c (h @ [Yield c])")
      show ?thesis
      proof (cases r)
        case (Inl e)
        then have "x \<in> set (usage_events es)"
          using going True od Cons.prems by (simp add: Let_def)
        then show ?thesis using on_done_usage_member [OF od] by blast
      next
        case (Inr v)
        then have "x \<in> set (usage_events es) \<or>
            x \<in> set (usage_events (snd (stream_loop E cfg th u a (after_take k) ?acc1 cs fin
                 (h @ Yield c # es))))"
          using going True od Cons.prems by (simp add: Let_def usage_events_append)
        then show ?thesis using on_done_usage_member [OF od] Cons.IH by blast
      qed
    qed
  qed
qed

lemma stream_loop_at_most_terminal:
  "length (message_writes (snd (stream_loop E cfg th u a k acc cs fin h)))
      \<le> length (filter chunk_done (yielded (snd (stream_loop E cfg th u a k acc cs fin h)))) \<and>
   length (usage_events (snd (stream_loop E cfg th u a k acc cs fin h)))
      \<le> length (filter chunk_done (yielded (snd (stream_loop E cfg th u a k acc cs fin h)))) \<and>
   commits (snd (stream_loop E cfg th u a k acc cs fin h))
      \<le> length (filter chunk_done (yielded (snd (stream_loop E cfg th u a k acc cs fin h))))"
proof (induction cs arbitrary: k acc h)
  case Nil
  show ?case by (simp split: stream_end.splits)
next
  case (Cons c cs)
  let ?acc1 = "if truthy (chunk_content c) then acc @ [the (chunk_content c)] else acc"
  show ?case
  proof (cases "closes_now k")
    case True
    then show ?thesis by simp
  next
    case going: False
    show ?thesis
    proof (cases "chunk_done c")
      case False
      then show ?thesis
        using going Cons.IH [of "after_take k" ?acc1 "h @ [Yield c]"] by (simp add: Let_def)
    next
      case True
      obtain r es where od: "on_done E cfg th u a ?acc1 c (h @ [Yield c]) = (r, es)"
        by (cases "on_done E cfg th u a ?acc1 c (h @ [Yield c])")
      note f = on_done_result [OF od]
      show ?thesis
      proof (cases r)
        case (Inl e)
        then show ?thesis using going True od f(1,2,3,4) by (simp add: Let_def)
      next
        case (Inr v)
        then show ?thesis
          using going True od f(1,2,3,4) Cons.IH [of "after_take k" ?acc1 "h @ Yield c # es"]
          by (simp add: Let_def proj_append)
      qed
    qed
  qed
qed

lemma stream_loop_once_per_terminal:
  assumes "collaborators_succeed E"
  shows "\<forall>c\<in>set cs. chunk_done c \<longrightarrow> chunk_metadata c ''usage'' \<noteq> None \<Longrightarrow>
     length (message_writes (snd (stream_loop E cfg th u a None acc cs fin h)))
        = length (filter chunk_done cs) \<and>
     length (usage_events (snd (stream_loop E cfg th u a None acc cs fin h)))
        = length (filter chunk_done cs) \<and>
     commits (snd (stream_loop E cfg th u a None acc cs fin h)) = length (filter chunk_done cs)"
proof (induction cs arbitrary: acc h)
  case Nil
  show ?case by (simp split: stream_end.splits)
next
  case (Cons c cs)
  let ?acc1 = "if truthy (chunk_content c) then acc @ [the (chunk_content c)] else acc"
  have rest: "\<forall>x\<in>set cs. chunk_done x \<longrightarrow> chunk_metadata x ''usage'' \<noteq> None"
    using Cons.prems by simp
  show ?case
  proof (cases "chunk_done c")
    case False
    then show ?thesis using Cons.IH [OF rest, of ?acc1 "h @ [Yield c]"] by (simp add: Let_def)
  next
    case True
    then obtain usage where us: "chunk_metadata c ''usage'' = Some usage"
      using Cons.prems by auto
    obtain r es where od: "on_done E cfg th u a ?acc1 c (h @ [Yield c]) = (r, es)"
      by (cases "on_done E cfg th u a ?acc1 c (h @ [Yield c])")
    note f = on_done_result [OF od]
    note g = on_done_ok [OF assms us, of cfg th u a ?acc1 "h @ [Yield c]"]
    have r: "r = Inr ()" and ue: "length (usage_events es) = 1" and cm: "commits es = 1"
      using g od by simp_all
    show ?thesis
      using True od r ue cm f(2) Cons.IH [OF rest, of ?acc1 "h @ Yield c # es"]
      by (simp add: Let_def proj_append)
  qed
qed

subsection \<open>The generator as a whole\<close>

lemma handle_streaming_response_open:
  assumes "provider_stream E s k p cfg hs h = (chunks, fin)" and "caller \<noteq> Some 0"
  shows "handle_streaming_response E s k p cfg th u a hs caller h =
     apsnd (\<lambda>later. open_session s k p cfg hs @ later)
       (stream_loop E cfg th u a caller [] chunks fin (h @ open_session s k p cfg hs))"
  using assms by (simp add: handle_streaming_response_def Let_def)

lemma handle_streaming_response_unstarted:
  "handle_streaming_response E s k p cfg th u a hs (Some 0) h = (Closed, [])"
  by (simp add: handle_streaming_response_def)

lemma handle_streaming_response_effects:
  assumes "provider_stream E s k p cfg hs h = (chunks, fin)" and "caller \<noteq> Some 0"
  shows "snd (handle_streaming_response E s k p cfg th u a hs caller h) =
     open_session s k p cfg hs @
       snd (stream_loop E cfg th u a caller [] chunks fin (h @ open_session s k p cfg hs))"
    and "fst (handle_streaming_response E s k p cfg th u a hs caller h) =
       fst (stream_loop E cfg th u a caller [] chunks fin (h @ open_session s k p cfg hs))"
  using handle_streaming_response_open [OF assms] by simp_all

lemmas demo_defs = demo_env_def demo_config_def demo_request_def demo_body_def
  demo_terminal_def provider_stream_def

lemmas run_defs = handle_streaming_response_def open_session_def initialize_llm_def
  on_done_def post_assistant_message_def Let_def

subsection \<open>Forwarding\<close>

text \<open>
  Claim C2. The chunks yielded to the caller are the provider's chunks, unchanged and in
  the provider's order: whatever happens, the caller has received an initial segment of
  the provider's sequence; it has received the whole sequence when it reads to the end of
  a stream whose chunks before the last are not terminal (a single terminal chunk and
  chunks with empty content included), and whenever the generator returns normally.
\<close>

theorem chunks_forwarded_in_order:
  assumes "provider_stream E schema api_key provider config formatted_history hist = (chunks, fin)"
  shows "let run = handle_streaming_response E schema api_key provider config thread_id
                     user_msg_id assistant_msg_id formatted_history caller hist in
     (\<exists>n. yielded (snd run) = take n chunks) \<and>
     (caller = None \<and> (\<forall>c\<in>set (butlast chunks). \<not> chunk_done c)
        \<longrightarrow> yielded (snd run) = chunks) \<and>
     (fst run = Exhausted \<longrightarrow> yielded (snd run) = chunks)"
proof (cases "caller = Some 0")
  case True
  have run: "handle_streaming_response E schema api_key provider config thread_id
               user_msg_id assistant_msg_id formatted_history caller hist = (Closed, [])"
    using True by (simp add: handle_streaming_response_unstarted)
  have "yielded [] = take 0 chunks" by simp
  then have "\<exists>n. yielded [] = take n chunks" by (rule exI)
  then show ?thesis unfolding Let_def run using True by simp
next
  case False
  let ?os = "open_session schema api_key provider config formatted_history"
  let ?loop = "stream_loop E config thread_id user_msg_id assistant_msg_id caller [] chunks fin
                 (hist @ ?os)"
  note eff = handle_streaming_response_effects [OF assms False, of thread_id user_msg_id
      assistant_msg_id]
  have y: "yielded (?os @ snd ?loop) = yielded (snd ?loop)"
    by (simp add: yielded_append proj_open_session)
  have a: "\<exists>n. yielded (snd ?loop) = take n chunks"
    by (rule stream_loop_yield_prefix)
  have b: "caller = None \<and> (\<forall>c\<in>set (butlast chunks). \<not> chunk_done c)
        \<longrightarrow> yielded (snd ?loop) = chunks"
    using stream_loop_yield_all by blast
  have c: "fst ?loop = Exhausted \<longrightarrow> yielded (snd ?loop) = chunks"
    using stream_loop_exhausted by blast
  show ?thesis unfolding Let_def eff y using a b c by blast
qed

theorem chunks_forwarded_in_order_demo:
  "yielded (snd (handle_streaming_response demo_env demo_request ''sk-o'' ''openai''
       demo_config ''T1'' ''m1'' ''r1'' [(''user'', ''hello'')] None [])) =
     demo_body @ [demo_terminal] \<and>
   fst (handle_streaming_response demo_env demo_request ''sk-o'' ''openai''
       demo_config ''T1'' ''m1'' ''r1'' [(''user'', ''hello'')] None []) = Exhausted"
  using chunks_forwarded_in_order [where E = demo_env and schema = demo_request
      and api_key = "''sk-o''" and provider = "''openai''" and config = demo_config
      and formatted_history = "[(''user'', ''hello'')]" and hist = "[]"
      and chunks = "demo_body @ [demo_terminal]" and fin = StreamEnds and caller = None
      and thread_id = "''T1''" and user_msg_id = "''m1''" and assistant_msg_id = "''r1''"]
  by (simp add: demo_defs run_defs)

subsection \<open>Streams that stop early\<close>

text \<open>
  Claim C6. If no chunk that the provider delivers before the run stops is terminal,
  because the caller closes the generator first, the provider raises first, or the stream
  just ends, then the run sends no write to the message store, emits no usage event and
  commits nothing: the text accumulated so far goes nowhere.
\<close>

theorem no_completion_before_terminal_chunk:
  assumes "provider_stream E schema api_key provider config formatted_history hist = (chunks, fin)"
    and "\<forall>c\<in>set (reached caller chunks). \<not> chunk_done c"
  shows "let es = snd (handle_streaming_response E schema api_key provider config thread_id
                         user_msg_id assistant_msg_id formatted_history caller hist) in
     message_writes es = [] \<and> usage_events es = [] \<and> commits es = 0"
proof (cases "caller = Some 0")
  case True
  then show ?thesis unfolding Let_def by (simp add: handle_streaming_response_unstarted)
next
  case False
  let ?os = "open_session schema api_key provider config formatted_history"
  note eff = handle_streaming_response_effects(1) [OF assms(1) False, of thread_id user_msg_id
      assistant_msg_id]
  note loop = stream_loop_no_terminal [OF assms(2), of E config thread_id user_msg_id
      assistant_msg_id "[]" fin "hist @ ?os"]
  show ?thesis unfolding Let_def eff using loop
    by (simp add: proj_append proj_open_session)
qed

theorem no_completion_before_terminal_chunk_demo:
  "message_writes (snd (handle_streaming_response demo_env demo_request ''sk-o'' ''openai''
       demo_config ''T1'' ''m1'' ''r1'' [(''user'', ''hello'')] (Some 2) [])) = [] \<and>
   usage_events (snd (handle_streaming_response demo_env demo_request ''sk-o'' ''openai''
       demo_config ''T1'' ''m1'' ''r1'' [(''user'', ''hello'')] (Some 2) [])) = [] \<and>
   commits (snd (handle_streaming_response demo_env demo_request ''sk-o'' ''openai''
       demo_config ''T1'' ''m1'' ''r1'' [(''user'', ''hello'')] (Some 2) [])) = 0 \<and>
   fst (handle_streaming_response demo_env demo_request ''sk-o'' ''openai''
       demo_config ''T1'' ''m1'' ''r1'' [(''user'', ''hello'')] (Some 2) []) = Closed \<and>
   message_writes (snd (handle_streaming_response env_provider_fails demo_request ''sk-o''
       ''openai'' demo_config ''T1'' ''m1'' ''r1'' [(''user'', ''hello'')] None [])) = [] \<and>
   fst (handle_streaming_response env_provider_fails demo_request ''sk-o''
       ''openai'' demo_config ''T1'' ''m1'' ''r1'' [(''user'', ''hello'')] None [])
     = Raised (External ''provider down'')"
  using no_completion_before_terminal_chunk [where E = demo_env and schema = demo_request
      and api_key = "''sk-o''" and provider = "''openai''" and config = demo_config
      and formatted_history = "[(''user'', ''hello'')]" and hist = "[]"
      and chunks = "demo_body @ [demo_terminal]" and fin = StreamEnds and caller = "Some 2"
      and thread_id = "''T1''" and user_msg_id = "''m1''" and assistant_msg_id = "''r1''"]
    no_completion_before_terminal_chunk [where E = env_provider_fails and schema = demo_request
      and api_key = "''sk-o''" and provider = "''openai''" and config = demo_config
      and formatted_history = "[(''user'', ''hello'')]" and hist = "[]"
      and chunks = demo_body and fin = "StreamRaises (External ''provider down'')"
      and caller = None
      and thread_id = "''T1''" and user_msg_id = "''m1''" and assistant_msg_id = "''r1''"]
  by (simp add: demo_defs run_defs env_provider_fails_def)

subsection \<open>Once for each terminal chunk\<close>

text \<open>
  Claim C10, as the code has it. The completion effects belong to the terminal chunks and
  to nothing else: in every run the assistant-message writes, the usage events and the
  commits each number at most the terminal chunks yielded. They number exactly the
  terminal chunks of the stream when the caller reads to the end, the collaborators
  answer and every terminal chunk carries usage counters. A stream that ends without a
  terminal chunk, read to the end, has all its chunks forwarded, and nothing is written,
  emitted or committed.
\<close>

theorem completion_once_per_terminal_chunk:
  assumes "provider_stream E schema api_key provider config formatted_history hist = (chunks, fin)"
  shows "let es = snd (handle_streaming_response E schema api_key provider config thread_id
                         user_msg_id assistant_msg_id formatted_history caller hist) in
     (caller = None \<and> collaborators_succeed E \<and>
      (\<forall>c\<in>set chunks. chunk_done c \<longrightarrow> chunk_metadata c ''usage'' \<noteq> None)
        \<longrightarrow> length (message_writes es) = length (filter chunk_done chunks) \<and>
            length (usage_events es) = length (filter chunk_done chunks) \<and>
            commits es = length (filter chunk_done chunks)) \<and>
     length (message_writes es) \<le> length (filter chunk_done (yielded es)) \<and>
     length (usage_events es) \<le> length (filter chunk_done (yielded es)) \<and>
     commits es \<le> length (filter chunk_done (yielded es)) \<and>
     (caller = None \<and> (\<forall>c\<in>set chunks. \<not> chunk_done c)
        \<longrightarrow> yielded es = chunks \<and> message_writes es = [] \<and> usage_events es = [] \<and>
            commits es = 0)"
proof (cases "caller = Some 0")
  case True
  have run: "handle_streaming_response E schema api_key provider config thread_id
               user_msg_id assistant_msg_id formatted_history caller hist = (Closed, [])"
    using True by (simp add: handle_streaming_response_unstarted)
  show ?thesis unfolding Let_def run using True by simp
next
  case False
  let ?os = "open_session schema api_key provider config formatted_history"
  let ?ls = "snd (stream_loop E config thread_id user_msg_id assistant_msg_id caller [] chunks
                 fin (hist @ ?os))"
  note eff = handle_streaming_response_effects(1) [OF assms False, of thread_id user_msg_id
      assistant_msg_id]
  have p: "message_writes (?os @ ?ls) = message_writes ?ls"
    "usage_events (?os @ ?ls) = usage_events ?ls" "commits (?os @ ?ls) = commits ?ls"
    "yielded (?os @ ?ls) = yielded ?ls"
    by (simp_all add: proj_append proj_open_session)
  have a: "caller = None \<and> collaborators_succeed E \<and>
      (\<forall>c\<in>set chunks. chunk_done c \<longrightarrow> chunk_metadata c ''usage'' \<noteq> None)
        \<longrightarrow> length (message_writes ?ls) = length (filter chunk_done chunks) \<and>
            length (usage_events ?ls) = length (filter chunk_done chunks) \<and>
            commits ?ls = length (filter chunk_done chunks)"
    using stream_loop_once_per_terminal by blast
  have b: "length (message_writes ?ls) \<le> length (filter chunk_done (yielded ?ls)) \<and>
     length (usage_events ?ls) \<le> length (filter chunk_done (yielded ?ls)) \<and>
     commits ?ls \<le> length (filter chunk_done (yielded ?ls))"
    by (rule stream_loop_at_most_terminal)
  have c: "caller = None \<and> (\<forall>c\<in>set chunks. \<not> chunk_done c)
        \<longrightarrow> yielded ?ls = chunks \<and> message_writes ?ls = [] \<and> usage_events ?ls = [] \<and>
            commits ?ls = 0"
  proof (intro impI, elim conjE)
    assume k: "caller = None" and nd: "\<forall>c\<in>set chunks. \<not> chunk_done c"
    have r: "\<forall>c\<in>set (reached caller chunks). \<not> chunk_done c" using k nd by simp
    have bl: "\<forall>c\<in>set (butlast chunks). \<not> chunk_done c" using nd by (meson in_set_butlastD)
    show "yielded ?ls = chunks \<and> message_writes ?ls = [] \<and> usage_events ?ls = [] \<and>
            commits ?ls = 0"
      using stream_loop_no_terminal [OF r] stream_loop_yield_all [OF bl] k by simp
  qed
  show ?thesis unfolding Let_def eff p using a b c by blast
qed

theorem completion_once_per_terminal_chunk_demo:
  "length (message_writes (snd (handle_streaming_response demo_env demo_request ''sk-o''
       ''openai'' demo_config ''T1'' ''m1'' ''r1'' [(''user'', ''hello'')] None []))) = 1 \<and>
   length (usage_events (snd (handle_streaming_response demo_env demo_request ''sk-o''
       ''openai'' demo_config ''T1'' ''m1'' ''r1'' [(''user'', ''hello'')] None []))) = 1 \<and>
   commits (snd (handle_streaming_response demo_env demo_request ''sk-o''
       ''openai'' demo_config ''T1'' ''m1'' ''r1'' [(''user'', ''hello'')] None [])) = 1 \<and>
   yielded (snd (handle_streaming_response env_provider_fails demo_request ''sk-o''
       ''openai'' demo_config ''T1'' ''m1'' ''r1'' [(''user'', ''hello'')] None [])) = demo_body \<and>
   commits (snd (handle_streaming_response env_provider_fails demo_request ''sk-o''
       ''openai'' demo_config ''T1'' ''m1'' ''r1'' [(''user'', ''hello'')] None [])) = 0"
  using completion_once_per_terminal_chunk [where E = demo_env and schema = demo_request
      and api_key = "''sk-o''" and provider = "''openai''" and config = demo_config
      and formatted_history = "[(''user'', ''hello'')]" and hist = "[]"
      and chunks = "demo_body @ [demo_terminal]" and fin = StreamEnds and caller = None
      and thread_id = "''T1''" and user_msg_id = "''m1''" and assistant_msg_id = "''r1''"]
    completion_once_per_terminal_chunk [where E = env_provider_fails and schema = demo_request
      and api_key = "''sk-o''" and provider = "''openai''" and config = demo_config
      and formatted_history = "[(''user'', ''hello'')]" and hist = "[]"
      and chunks = demo_body and fin = "StreamRaises (External ''provider down'')"
      and caller = None
      and thread_id = "''T1''" and user_msg_id = "''m1''" and assistant_msg_id = "''r1''"]
  by (simp add: demo_defs run_defs env_provider_fails_def collaborators_succeed_def)

text \<open>
  Two runs in which a terminal chunk is yielded and the completion effects are not all
  executed. With a terminal chunk that has no usage counters, read to the end, the
  assistant message is written, and no usage event and no commit follow. With a caller
  that closes the generator on receiving the terminal chunk, none of the three happens.
\<close>

theorem terminal_chunk_without_full_completion:
  "length (filter chunk_done (yielded (snd (handle_streaming_response env_without_usage
       demo_request ''sk-o'' ''openai'' demo_config ''T1'' ''m1'' ''r1''
       [(''user'', ''hello'')] None [])))) = 1 \<and>
   length (message_writes (snd (handle_streaming_response env_without_usage
       demo_request ''sk-o'' ''openai'' demo_config ''T1'' ''m1'' ''r1''
       [(''user'', ''hello'')] None []))) = 1 \<and>
   length (usage_events (snd (handle_streaming_response env_without_usage
       demo_request ''sk-o'' ''openai'' demo_config ''T1'' ''m1'' ''r1''
       [(''user'', ''hello'')] None []))) = 0 \<and>
   commits (snd (handle_streaming_response env_without_usage
       demo_request ''sk-o'' ''openai'' demo_config ''T1'' ''m1'' ''r1''
       [(''user'', ''hello'')] None [])) = 0 \<and>
   length (filter chunk_done (yielded (snd (handle_streaming_response demo_env
       demo_request ''sk-o'' ''openai'' demo_config ''T1'' ''m1'' ''r1''
       [(''user'', ''hello'')] (Some 3) [])))) = 1 \<and>
   length (message_writes (snd (handle_streaming_response demo_env
       demo_request ''sk-o'' ''openai'' demo_config ''T1'' ''m1'' ''r1''
       [(''user'', ''hello'')] (Some 3) []))) = 0 \<and>
   commits (snd (handle_streaming_response demo_env
       demo_request ''sk-o'' ''openai'' demo_config ''T1'' ''m1'' ''r1''
       [(''user'', ''hello'')] (Some 3) [])) = 0"
  by (simp add: demo_defs run_defs env_without_usage_def bare_terminal_def)

subsection \<open>The usage event\<close>

lemma get_bot_config_effects:
  "usage_events (snd (get_bot_config E b h)) = []" "commits (snd (get_bot_config E b h)) = 0"
  "yielded (snd (get_bot_config E b h)) = []" "message_writes (snd (get_bot_config E b h)) = []"
  "persisted (snd (get_bot_config E b h)) = []"
  by (simp_all add: get_bot_config_def split: sum.splits bool.splits option.splits)

lemma get_bot_config_found:
  "get_bot_config E b h = (Inr cfg, es) \<Longrightarrow> es = [BotGet b, ConfigGet b]"
  by (auto simp add: get_bot_config_def split: sum.splits bool.splits option.splits)

lemma post_user_message_effects:
  "usage_events (snd (post_user_message E t p h)) = []"
  "commits (snd (post_user_message E t p h)) = 0"
  "yielded (snd (post_user_message E t p h)) = []"
  "message_writes (snd (post_user_message E t p h)) = [(t, p)]"
  "persisted (snd (post_user_message E t p h)) = (if is_ok (nexus_post E h t p) then [(t, p)] else [])"
  by (simp_all add: post_user_message_def split: sum.splits option.splits)

lemma get_formatted_history_effects:
  "usage_events (snd (get_formatted_history E t br l h)) = []"
  "commits (snd (get_formatted_history E t br l h)) = 0"
  "yielded (snd (get_formatted_history E t br l h)) = []"
  "message_writes (snd (get_formatted_history E t br l h)) = []"
  "persisted (snd (get_formatted_history E t br l h)) = []"
  by (simp_all add: get_formatted_history_def split: sum.splits option.splits)

lemma process_user_message_effects:
  "usage_events (snd (process_user_message E b t s stream)) = []"
  "commits (snd (process_user_message E b t s stream)) = 0"
  "yielded (snd (process_user_message E b t s stream)) = []"
proof -
  obtain r1 e1 where g: "get_bot_config E b [] = (r1, e1)" by (cases "get_bot_config E b []")
  note ge = get_bot_config_effects [of E b "[]", unfolded g, simplified]
  have "usage_events (snd (process_user_message E b t s stream)) = [] \<and>
    commits (snd (process_user_message E b t s stream)) = 0 \<and>
    yielded (snd (process_user_message E b t s stream)) = []"
  proof (cases "stream")
    case False
    then show ?thesis by (simp add: process_user_message_def)
  next
    case True
    show ?thesis
    proof (cases r1)
      case (Inl e)
      then show ?thesis using True g ge by (simp add: process_user_message_def)
    next
      case (Inr cfg)
      let ?p = "create_payload E e1 s"
      obtain r2 e2 where pu: "post_user_message E t ?p e1 = (r2, e2)"
        by (cases "post_user_message E t ?p e1")
      note pe = post_user_message_effects [of E t ?p e1, unfolded pu, simplified]
      have hist: "usage_events x = [] \<and> commits x = 0 \<and> yielded x = []"
        if "get_formatted_history E t br l h = (r, x)" for br l h r x
        using get_formatted_history_effects(1,2,3) [of E t br l h] that by simp
      show ?thesis using True g ge Inr pu pe hist
        by (auto simp add: process_user_message_def Let_def proj_append
            split: sum.splits prod.splits option.splits)
    qed
  qed
  then show "usage_events (snd (process_user_message E b t s stream)) = []"
  "commits (snd (process_user_message E b t s stream)) = 0"
  "yielded (snd (process_user_message E b t s stream)) = []" by simp_all
qed

text \<open>
  Claim C9. Every usage event emitted while a request is served carries the account
  identifier \<^verbatim>\<open>067423b0-81fa-702b-8000-b03b6db1eb93\<close>, the address
  \<^verbatim>\<open>127.0.0.1\<close> and an empty user agent, whatever the request; its user and tenant
  identifiers are the ones of the ambient context.
\<close>

theorem usage_event_fixed_fields:
  "\<forall>x\<in>set (usage_events (snd (serve E bot_id thread_id schema stream caller))).
     account_id x = ''067423b0-81fa-702b-8000-b03b6db1eb93'' \<and> ip_address x = ''127.0.0.1'' \<and>
     user_agent x = [] \<and> user_id x = current_user_id E \<and> tenant_id x = current_tenant_id E"
proof
  fix x
  assume x: "x \<in> set (usage_events (snd (serve E bot_id thread_id schema stream caller)))"
  obtain r es where p: "process_user_message E bot_id thread_id schema stream = (r, es)"
    by (cases "process_user_message E bot_id thread_id schema stream")
  have pe: "usage_events es = []"
    using process_user_message_effects(1) [of E bot_id thread_id schema stream] p by simp
  show "account_id x = ''067423b0-81fa-702b-8000-b03b6db1eb93'' \<and> ip_address x = ''127.0.0.1'' \<and>
     user_agent x = [] \<and> user_id x = current_user_id E \<and> tenant_id x = current_tenant_id E"
  proof (cases r)
    case (Inl e)
    then show ?thesis using x p pe by (simp add: serve_def)
  next
    case (Inr g)
    let ?run = "handle_streaming_response E (gen_schema g) (gen_api_key g) (gen_provider g)
                  (gen_config g) (gen_thread_id g) (gen_user_msg_id g)
                  (gen_assistant_msg_id g) (gen_formatted_history g) caller es"
    have sx: "x \<in> set (usage_events (snd ?run))"
      using x p pe Inr by (simp add: serve_def usage_events_append split: prod.splits)
    show ?thesis
    proof (cases "caller = Some 0")
      case True
      then show ?thesis using sx by (simp add: handle_streaming_response_unstarted)
    next
      case False
      obtain chunks fin where ps: "provider_stream E (gen_schema g) (gen_api_key g)
          (gen_provider g) (gen_config g) (gen_formatted_history g) es = (chunks, fin)"
        by (cases "provider_stream E (gen_schema g) (gen_api_key g)
          (gen_provider g) (gen_config g) (gen_formatted_history g) es")
      note eff = handle_streaming_response_effects(1) [OF ps False, of "gen_thread_id g"
          "gen_user_msg_id g" "gen_assistant_msg_id g"]
      have "x \<in> set (usage_events (snd (stream_loop E (gen_config g) (gen_thread_id g)
          (gen_user_msg_id g) (gen_assistant_msg_id g) caller [] chunks fin
          (es @ open_session (gen_schema g) (gen_api_key g) (gen_provider g) (gen_config g)
             (gen_formatted_history g)))))"
        using sx unfolding eff by (simp add: usage_events_append proj_open_session)
      then show ?thesis using stream_loop_usage_member by blast
    qed
  qed
qed

lemmas serve_defs = serve_def process_user_message_def get_bot_config_def
  get_api_key_and_provider_def openai_models_def anthropic_models_def create_payload_def
  post_user_message_def get_formatted_history_def

theorem usage_event_fixed_fields_demo:
  "usage_events (snd (serve demo_env ''bot'' ''T1'' demo_request True None)) =
     [\<lparr> account_id = ''067423b0-81fa-702b-8000-b03b6db1eb93'', usage_model_name = ''gpt-4o'',
        input_tokens = Some 5, output_tokens = Some 2, request_id = ''u7'',
        user_id = Some ''alice'', tenant_id = Some ''acme'', ip_address = ''127.0.0.1'',
        user_agent = [] \<rparr>]"
  using usage_event_fixed_fields [of demo_env "''bot''" "''T1''" demo_request True None]
  by (simp add: demo_defs run_defs serve_defs)


subsection \<open>The session given to the provider\<close>

lemma stream_loop_session:
  "system_prompts (snd (stream_loop E cfg th u a k acc cs fin h)) = [] \<and>
   replayed_turns (snd (stream_loop E cfg th u a k acc cs fin h)) = [] \<and>
   new_inputs (snd (stream_loop E cfg th u a k acc cs fin h)) = []"
proof (induction cs arbitrary: k acc h)
  case Nil
  show ?case by (simp split: stream_end.splits)
next
  case (Cons c cs)
  let ?acc1 = "if truthy (chunk_content c) then acc @ [the (chunk_content c)] else acc"
  obtain r es where od: "on_done E cfg th u a ?acc1 c (h @ [Yield c]) = (r, es)"
    by (cases "on_done E cfg th u a ?acc1 c (h @ [Yield c])")
  note f = on_done_result(5,6,7) [OF od]
  show ?case
    using od f Cons.IH [of "after_take k" ?acc1 "h @ [Yield c]"]
      Cons.IH [of "after_take k" ?acc1 "h @ Yield c # es"]
    by (cases r) (simp_all add: Let_def proj_append)
qed

text \<open>
  Claim C3, as the code has it. Once the generator has started, the session is seeded
  with the configuration's custom instructions as system prompt, all history entries but
  the most recent one are replayed as prior turns, and the new input is the content of
  the request (\<^verbatim>\<open>schema.content\<close>). The most recent history entry is never replayed;
  its content is the new input exactly when it equals the request's content.
\<close>

theorem session_seeding:
  assumes "caller \<noteq> Some 0"
  shows "let es = snd (handle_streaming_response E schema api_key provider config thread_id
                         user_msg_id assistant_msg_id formatted_history caller hist) in
     system_prompts es = [custom_instructions config] \<and>
     replayed_turns es = butlast formatted_history \<and>
     new_inputs es = [req_content schema] \<and>
     (new_inputs es = [snd (last formatted_history)]
        \<longleftrightarrow> snd (last formatted_history) = req_content schema)"
proof -
  obtain chunks fin where ps:
    "provider_stream E schema api_key provider config formatted_history hist = (chunks, fin)"
    by (cases "provider_stream E schema api_key provider config formatted_history hist")
  note eff = handle_streaming_response_effects(1) [OF ps assms, of thread_id user_msg_id
      assistant_msg_id]
  show ?thesis unfolding Let_def eff
    using stream_loop_session [of E config thread_id user_msg_id assistant_msg_id caller "[]"
        chunks fin "hist @ open_session schema api_key provider config formatted_history"]
    by (auto simp add: proj_append proj_open_session)
qed

theorem session_seeding_demo:
  "system_prompts (snd (handle_streaming_response demo_env demo_request ''sk-o'' ''openai''
       demo_config ''T1'' ''m1'' ''r1'' two_turns None [])) = [''be kind''] \<and>
   replayed_turns (snd (handle_streaming_response demo_env demo_request ''sk-o'' ''openai''
       demo_config ''T1'' ''m1'' ''r1'' two_turns None [])) = [(''user'', ''hi'')] \<and>
   new_inputs (snd (handle_streaming_response demo_env demo_request ''sk-o'' ''openai''
       demo_config ''T1'' ''m1'' ''r1'' two_turns None [])) = [''hello'']"
  using session_seeding [where caller = None and E = demo_env and schema = demo_request
      and api_key = "''sk-o''" and provider = "''openai''" and config = demo_config
      and thread_id = "''T1''" and user_msg_id = "''m1''" and assistant_msg_id = "''r1''"
      and formatted_history = two_turns and hist = "[]"]
  by (simp add: demo_config_def demo_request_def two_turns_def Let_def)

text \<open>
  With the two earlier messages as history and \<^verbatim>\<open>"hello"\<close> as the request's content,
  the input given to the provider is not the content of the most recent history entry.
\<close>

theorem newest_history_entry_is_not_the_input:
  "\<not> new_inputs (snd (handle_streaming_response demo_env demo_request ''sk-o'' ''openai''
         demo_config ''T1'' ''m1'' ''r1'' two_turns None [])) = [snd (last two_turns)]"
  by (simp add: demo_defs run_defs two_turns_def)

subsection \<open>Usage problems at the terminal chunk\<close>




subsection \<open>Failures before streaming\<close>

text \<open>
  Claim C7. With streaming disabled, \<^verbatim>\<open>process_user_message\<close> fails at once with the
  405 error and has performed no effect at all: no configuration lookup, no message
  write, no call to the provider; and so does a request served that way.
\<close>

theorem non_streaming_rejected:
  "process_user_message E bot_id thread_id schema False =
     (Inl (APIError 405 ''Non-streaming responses are not implemented yet''), []) \<and>
   serve E bot_id thread_id schema False caller =
     (Inl (APIError 405 ''Non-streaming responses are not implemented yet''), [])"
  by (simp add: process_user_message_def serve_def)

theorem non_streaming_rejected_demo:
  "serve demo_env ''bot'' ''T1'' demo_request False None =
     (Inl (APIError 405 ''Non-streaming responses are not implemented yet''), [])"
  using non_streaming_rejected [of demo_env "''bot''" "''T1''" demo_request None] by simp

text \<open>
  Claim C8. For a model identifier in neither family, provider resolution returns the
  400 error \<^verbatim>\<open>Invalid model name\<close>; it is a pure function of the settings and the
  identifier, so it performs no effect. Inside \<^verbatim>\<open>process_user_message\<close> the error
  ends the call with nothing done beyond the configuration lookup.
\<close>

theorem unknown_model_rejected:
  assumes "name \<notin> set openai_models" and "name \<notin> set anthropic_models"
  shows "get_api_key_and_provider st name = Inl (APIError 400 ''Invalid model name'') \<and>
     (get_bot_config E bot_id [] = (Inr config, es) \<and> model_name config = name \<longrightarrow>
        process_user_message E bot_id thread_id schema True =
          (Inl (APIError 400 ''Invalid model name''), es) \<and>
        es = [BotGet bot_id, ConfigGet bot_id])"
  using assms get_bot_config_found [of E bot_id "[]" config es]
  by (auto simp add: get_api_key_and_provider_def process_user_message_def)

theorem unknown_model_rejected_demo:
  "get_api_key_and_provider (app_settings env_unknown_model) ''llama-3'' =
     Inl (APIError 400 ''Invalid model name'') \<and>
   process_user_message env_unknown_model ''bot'' ''T1'' demo_request True =
     (Inl (APIError 400 ''Invalid model name''), [BotGet ''bot'', ConfigGet ''bot''])"
  using unknown_model_rejected [where name = "''llama-3''" and E = env_unknown_model
      and st = "app_settings env_unknown_model" and bot_id = "''bot''"
      and config = "demo_config \<lparr> model_name := ''llama-3'' \<rparr>"
      and es = "[BotGet ''bot'', ConfigGet ''bot'']" and thread_id = "''T1''"
      and schema = demo_request]
  by (simp add: env_unknown_model_def demo_env_def demo_config_def openai_models_def
      anthropic_models_def get_bot_config_def)

text \<open>
  Claim C5, as the code has it. When \<^verbatim>\<open>process_user_message\<close> fails in the mode
  check, in the configuration lookup, in the provider resolution or in the post of the
  user message itself, no message has been persisted. When it fails later, in reading the
  store's reply or in fetching the history, the user message has been persisted and stays.
\<close>

theorem failure_before_streaming:
  assumes "process_user_message E bot_id thread_id schema stream = (Inl e, es)"
  shows "persisted es =
     (if fails_by_user_write E bot_id thread_id schema stream then []
      else [(thread_id, create_payload E [BotGet bot_id, ConfigGet bot_id] schema)])"
proof (cases stream)
  case False
  then show ?thesis using assms by (simp add: process_user_message_def fails_by_user_write_def)
next
  case True
  obtain r1 e1 where g: "get_bot_config E bot_id [] = (r1, e1)"
    by (cases "get_bot_config E bot_id []")
  note ge = get_bot_config_effects(5) [of E bot_id "[]", unfolded g, simplified]
  show ?thesis
  proof (cases r1)
    case (Inl x)
    then show ?thesis using True g ge assms
      by (simp add: process_user_message_def fails_by_user_write_def)
  next
    case (Inr config)
    have e1: "e1 = [BotGet bot_id, ConfigGet bot_id]"
      using g Inr get_bot_config_found by blast
    let ?p = "create_payload E e1 schema"
    show ?thesis
    proof (cases "get_api_key_and_provider (app_settings E) (model_name config)")
      case (Inl x)
      then show ?thesis using True g ge Inr assms
        by (simp add: process_user_message_def fails_by_user_write_def)
    next
      case kp: (Inr kp)
      obtain r2 e2 where pu: "post_user_message E thread_id ?p e1 = (r2, e2)"
        by (cases "post_user_message E thread_id ?p e1")
      note pe = post_user_message_effects(5) [of E thread_id ?p e1, unfolded pu, simplified]
      have f: "fails_by_user_write E bot_id thread_id schema stream
                 = (\<not> is_ok (nexus_post E e1 thread_id ?p))"
        using True g Inr kp by (simp add: fails_by_user_write_def split: prod.splits)
      have hist: "persisted x = []"
        if "get_formatted_history E thread_id br l h = (r, x)" for br l h r x
        using get_formatted_history_effects(5) [of E thread_id br l h] that by simp
      have "persisted es = persisted e2"
        using True g ge Inr kp pu assms hist
        by (auto simp add: process_user_message_def Let_def persisted_append
            split: sum.splits prod.splits option.splits)
      then show ?thesis using pe f e1 by simp
    qed
  qed
qed

theorem failure_before_streaming_demo:
  "persisted (snd (process_user_message env_history_down ''bot'' ''T1'' demo_request True)) =
     [(''T1'', \<lparr> msg_id = ''m1'', msg_content = ''hello'', msg_role = ''user'',
                msg_parent_id = None, msg_status = ''completed'' \<rparr>)] \<and>
   persisted (snd (process_user_message env_unknown_model ''bot'' ''T1'' demo_request True)) = []"
  using failure_before_streaming [where E = env_history_down and bot_id = "''bot''"
      and thread_id = "''T1''" and schema = demo_request and stream = True
      and e = "External ''store down''"
      and es = "snd (process_user_message env_history_down ''bot'' ''T1'' demo_request True)"]
    failure_before_streaming [where E = env_unknown_model and bot_id = "''bot''"
      and thread_id = "''T1''" and schema = demo_request and stream = True
      and e = "APIError 400 ''Invalid model name''"
      and es = "snd (process_user_message env_unknown_model ''bot'' ''T1'' demo_request True)"]
  by (simp add: env_history_down_def env_unknown_model_def demo_defs serve_defs
      fails_by_user_write_def)

text \<open>
  A store that takes the user message and then fails the history read: the call fails
  and the user message is in the store.
\<close>

theorem history_failure_leaves_user_message:
  "process_user_message env_history_down ''bot'' ''T1'' demo_request True =
     (Inl (External ''store down''),
      [BotGet ''bot'', ConfigGet ''bot'',
       NexusPost ''T1'' \<lparr> msg_id = ''m1'', msg_content = ''hello'', msg_role = ''user'',
                 msg_parent_id = None, msg_status = ''completed'' \<rparr> True,
       NexusGet ''T1'' (Some ''m1'') (Some ''b1'')]) \<and>
   persisted (snd (process_user_message env_history_down ''bot'' ''T1'' demo_request True)) =
     [(''T1'', \<lparr> msg_id = ''m1'', msg_content = ''hello'', msg_role = ''user'',
                msg_parent_id = None, msg_status = ''completed'' \<rparr>)]"
  by (simp add: env_history_down_def demo_defs serve_defs)

subsection \<open>The terminal chunk\<close>









end
